theory Spec2Isabelle
  imports Main "HOL-Library.Sublist"
begin

section \<open>Values, errors and strings\<close>

text \<open>
  The encoder of \<^verbatim>\<open>DynamicHL7Generator\<close> works on decoded JSON. A value is a scalar,
  a list or a dictionary; a dictionary is an association list in insertion order, as
  Python iterates it. \<^verbatim>\<open>None\<close> is \<open>JNull\<close>. Strings are ASCII text: \<^verbatim>\<open>str.upper\<close> is
  modelled on the letters a to z and leaves every other character as it is. Floating
  point scalars are left out of the value type.
\<close>

datatype error = KeyError | IndexError | TypeError | AttributeError | ValueError

datatype json =
    JNull
  | JBool bool
  | JInt int
  | JStr string
  | JList "json list"
  | JDict "(string \<times> json) list"

text \<open>\<^verbatim>\<open>d[k] = v\<close>: an existing key keeps its place and takes the new value, a new key goes last.\<close>

fun dict_set :: "('k \<times> 'v) list \<Rightarrow> 'k \<Rightarrow> 'v \<Rightarrow> ('k \<times> 'v) list" where
  "dict_set [] k v = [(k, v)]"
| "dict_set ((k', v') # d) k v = (if k' = k then (k, v) # d else (k', v') # dict_set d k v)"

text \<open>\<^verbatim>\<open>dict(pairs)\<close>: the pairs stored one after the other.\<close>

definition py_dict :: "('k \<times> 'v) list \<Rightarrow> ('k \<times> 'v) list" where
  "py_dict kvs = foldl (\<lambda>d kv. dict_set d (fst kv) (snd kv)) [] kvs"

definition upper_char :: "char \<Rightarrow> char" where
  "upper_char c =
     (let n = (of_char c :: nat) in if 97 \<le> n \<and> n \<le> 122 then char_of (n - 32) else c)"

definition upper :: "string \<Rightarrow> string" where
  "upper s = map upper_char s"

text \<open>\<^verbatim>\<open>s.replace(old, new)\<close> for one-character \<open>old\<close> and \<open>new\<close>, the only use in the source.\<close>

definition replace :: "char \<Rightarrow> char \<Rightarrow> string \<Rightarrow> string" where
  "replace old new s = map (\<lambda>c. if c = old then new else c) s"

section \<open>Key normalisation\<close>

text \<open>\<^verbatim>\<open>key.replace(' ', '_').replace('-', '_').upper()\<close> of \<^verbatim>\<open>_normalize_json_data\<close>.\<close>

definition normalize_key :: "string \<Rightarrow> string" where
  "normalize_key key = upper (replace (CHR ''-'') (CHR ''_'') (replace (CHR '' '') (CHR ''_'') key))"

fun normalize_json_data :: "json \<Rightarrow> json" where
  "normalize_json_data (JDict kvs) =
     JDict (py_dict (map (\<lambda>kv. (normalize_key (fst kv), normalize_json_data (snd kv))) kvs))"
| "normalize_json_data (JList xs) = JList (map normalize_json_data xs)"
| "normalize_json_data v = v"


section \<open>Text of values\<close>

text \<open>\<^verbatim>\<open>str(n)\<close> of an integer, in decimal.\<close>

definition digit_char :: "nat \<Rightarrow> char" where
  "digit_char d = char_of (48 + d)"

fun str_nat :: "nat \<Rightarrow> string" where
  "str_nat n = (if n < 10 then [digit_char n] else str_nat (n div 10) @ [digit_char (n mod 10)])"

declare str_nat.simps [simp del]

definition str_int :: "int \<Rightarrow> string" where
  "str_int i = (if i < 0 then CHR ''-'' # str_nat (nat (- i)) else str_nat (nat i))"

text \<open>\<^verbatim>\<open>sep.join(parts)\<close>.\<close>

fun join :: "string \<Rightarrow> string list \<Rightarrow> string" where
  "join sep [] = []"
| "join sep [p] = p"
| "join sep (p # q # ps) = p @ sep @ join sep (q # ps)"

text \<open>
  \<^verbatim>\<open>repr\<close> of an ASCII string: double quotes when the text has a single quote and no
  double quote, single quotes otherwise; the quote, the backslash and the control
  characters are escaped.
\<close>

definition hex_char :: "nat \<Rightarrow> char" where
  "hex_char d = (if d < 10 then char_of (48 + d) else char_of (87 + d))"

definition repr_char :: "char \<Rightarrow> char \<Rightarrow> string" where
  "repr_char q c =
     (let n = (of_char c :: nat) in
      if c = q \<or> c = CHR 0x5C then [CHR 0x5C, c]
      else if c = CHR 0x09 then [CHR 0x5C, CHR ''t'']
      else if c = CHR 0x0A then [CHR 0x5C, CHR ''n'']
      else if c = CHR 0x0D then [CHR 0x5C, CHR ''r'']
      else if n < 32 \<or> n = 127 then [CHR 0x5C, CHR ''x'', hex_char (n div 16), hex_char (n mod 16)]
      else [c])"

definition repr_str :: "string \<Rightarrow> string" where
  "repr_str s =
     (let q = (if CHR 0x27 \<in> set s \<and> CHR 0x22 \<notin> set s then CHR 0x22 else CHR 0x27)
      in q # concat (map (repr_char q) s) @ [q])"

fun py_repr :: "json \<Rightarrow> string" where
  "py_repr JNull = ''None''"
| "py_repr (JBool b) = (if b then ''True'' else ''False'')"
| "py_repr (JInt i) = str_int i"
| "py_repr (JStr s) = repr_str s"
| "py_repr (JList xs) = ''['' @ join '', '' (map py_repr xs) @ '']''"
| "py_repr (JDict kvs) =
     ''{'' @ join '', '' (map (\<lambda>kv. repr_str (fst kv) @ '': '' @ py_repr (snd kv)) kvs) @ ''}''"

text \<open>\<^verbatim>\<open>f"{value}"\<close>: a string is written as it is, anything else as its \<^verbatim>\<open>repr\<close>.\<close>

definition py_str :: "json \<Rightarrow> string" where
  "py_str v = (case v of JStr s \<Rightarrow> s | _ \<Rightarrow> py_repr v)"

text \<open>The truth value of \<^verbatim>\<open>if value:\<close>.\<close>

fun truthy :: "json \<Rightarrow> bool" where
  "truthy JNull = False"
| "truthy (JBool b) = b"
| "truthy (JInt i) = (i \<noteq> 0)"
| "truthy (JStr s) = (s \<noteq> [])"
| "truthy (JList xs) = (xs \<noteq> [])"
| "truthy (JDict kvs) = (kvs \<noteq> [])"

text \<open>\<^verbatim>\<open>value or default\<close>, already as text.\<close>

definition str_or :: "json \<Rightarrow> string \<Rightarrow> string" where
  "str_or v dflt = (if truthy v then py_str v else dflt)"

text \<open>\<^verbatim>\<open>int(s)\<close> on ASCII text: blanks around, one optional sign, digits with single
  underscores between them; anything else is a \<^verbatim>\<open>ValueError\<close>.\<close>

definition is_space :: "char \<Rightarrow> bool" where
  "is_space c = (let n = (of_char c :: nat) in n = 32 \<or> (9 \<le> n \<and> n \<le> 13) \<or> (28 \<le> n \<and> n \<le> 31))"

definition strip :: "string \<Rightarrow> string" where
  "strip s = rev (dropWhile is_space (rev (dropWhile is_space s)))"

definition is_digit :: "char \<Rightarrow> bool" where
  "is_digit c = (let n = (of_char c :: nat) in 48 \<le> n \<and> n \<le> 57)"

fun digits_ok :: "string \<Rightarrow> bool" where
  "digits_ok [] = False"
| "digits_ok [c] = is_digit c"
| "digits_ok (c # d # cs) =
     (is_digit c \<and> (if d = CHR ''_'' then digits_ok cs else digits_ok (d # cs)))"

definition nat_of_digits :: "string \<Rightarrow> nat" where
  "nat_of_digits s = foldl (\<lambda>a c. 10 * a + (of_char c - 48)) 0 s"

definition py_int :: "string \<Rightarrow> error + int" where
  "py_int s =
     (let t = strip s;
          neg = (t \<noteq> [] \<and> hd t = CHR ''-'');
          body = (if t \<noteq> [] \<and> (hd t = CHR ''-'' \<or> hd t = CHR ''+'') then tl t else t)
      in if digits_ok body
         then (let v = int (nat_of_digits (filter (\<lambda>c. c \<noteq> CHR ''_'') body))
               in Inr (if neg then - v else v))
         else Inl ValueError)"

text \<open>\<^verbatim>\<open>s.split(sep)\<close> for a one-character separator.\<close>

fun split :: "char \<Rightarrow> string \<Rightarrow> string list" where
  "split sep [] = [[]]"
| "split sep (c # cs) =
     (if c = sep then [] # split sep cs
      else (case split sep cs of [] \<Rightarrow> [[c]] | w # ws \<Rightarrow> (c # w) # ws))"

text \<open>\<^verbatim>\<open>s.startswith(prefix)\<close>.\<close>

definition startswith :: "string \<Rightarrow> string \<Rightarrow> bool" where
  "startswith s p = (take (length p) s = p)"

section \<open>Path resolution\<close>

text \<open>\<^verbatim>\<open>obj.get(key, default)\<close>: only a dictionary has the method.\<close>

definition py_get :: "json \<Rightarrow> string \<Rightarrow> json \<Rightarrow> error + json" where
  "py_get obj key dflt =
     (case obj of
        JDict d \<Rightarrow> Inr (case map_of d key of Some v \<Rightarrow> v | None \<Rightarrow> dflt)
      | _ \<Rightarrow> Inl AttributeError)"

text \<open>The list comprehension \<^verbatim>\<open>[item.get(key) for item in current]\<close>.\<close>

fun project :: "json list \<Rightarrow> string \<Rightarrow> error + json list" where
  "project [] key = Inr []"
| "project (item # items) key =
     (case py_get item key JNull of
        Inl e \<Rightarrow> Inl e
      | Inr v \<Rightarrow> (case project items key of Inl e \<Rightarrow> Inl e | Inr vs \<Rightarrow> Inr (v # vs)))"

text \<open>The loop \<^verbatim>\<open>for key in keys\<close> of \<^verbatim>\<open>_get_field_value\<close>, \<open>current\<close> first.\<close>

fun walk :: "json \<Rightarrow> string list \<Rightarrow> error + json" where
  "walk current [] = Inr current"
| "walk current (key # keys) =
     (case current of
        JDict d \<Rightarrow> (case map_of d key of Some v \<Rightarrow> walk v keys | None \<Rightarrow> Inr JNull)
      | JList [] \<Rightarrow> Inr JNull
      | JList (first # rest) \<Rightarrow>
          (case first of
             JDict d0 \<Rightarrow>
               (if map_of d0 key \<noteq> None
                then (case project (first # rest) key of
                        Inl e \<Rightarrow> Inl e
                      | Inr vs \<Rightarrow> walk (JList vs) keys)
                else Inr JNull)
           | _ \<Rightarrow> Inr JNull)
      | _ \<Rightarrow> Inr JNull)"

text \<open>\<^verbatim>\<open>_get_field_value\<close>: the handler turns \<^verbatim>\<open>KeyError\<close>, \<^verbatim>\<open>IndexError\<close> and
  \<^verbatim>\<open>TypeError\<close> into \<^verbatim>\<open>None\<close>; any other exception leaves the function.\<close>

definition get_field_value :: "json \<Rightarrow> string \<Rightarrow> error + json" where
  "get_field_value data field_path =
     (case walk data (split (CHR ''.'') field_path) of
        Inl e \<Rightarrow> (if e = KeyError \<or> e = IndexError \<or> e = TypeError then Inr JNull else Inl e)
      | Inr v \<Rightarrow> Inr v)"

section \<open>Compiling the configuration\<close>

text \<open>
  A configuration row is the dictionary the CSV reader yields: column name to cell text.
  \<^verbatim>\<open>row[c]\<close> raises \<^verbatim>\<open>KeyError\<close> on a missing column, \<^verbatim>\<open>row.get(c, '')\<close> does not.
\<close>

type_synonym row = "(string \<times> string) list"

definition row_item :: "row \<Rightarrow> string \<Rightarrow> error + string" where
  "row_item row c = (case map_of row c of Some v \<Rightarrow> Inr v | None \<Rightarrow> Inl KeyError)"

definition row_get :: "row \<Rightarrow> string \<Rightarrow> string \<Rightarrow> string" where
  "row_get row c dflt = (case map_of row c of Some v \<Rightarrow> v | None \<Rightarrow> dflt)"

record field_config =
  "identifier" :: string
  display_name :: string
  data_type :: string
  unit :: string
  sequence :: int
  json_attribute :: string
  child_obr :: string
  segment_id :: string
  hl7_key :: string

record mappings =
  segment_order :: "string list"
  segments :: "(string \<times> (string \<times> field_config) list) list"
  obr_sections :: "(string \<times> field_config list) list"
  field_sequence :: "(string \<times> int) list"

text \<open>\<^verbatim>\<open>int(row['SEQUENCE']) if row['SEQUENCE'] else 999\<close>.\<close>

definition sequence_of :: "row \<Rightarrow> error + int" where
  "sequence_of row =
     (case row_item row ''SEQUENCE'' of
        Inl e \<Rightarrow> Inl e
      | Inr s \<Rightarrow> (if s \<noteq> [] then py_int s else Inr 999))"

text \<open>The first half of the loop body of \<^verbatim>\<open>_build_dynamic_mappings\<close>: the segment name and
  the \<^verbatim>\<open>field_config\<close> of one row, the cells read in the order of the source.\<close>

definition read_row :: "row \<Rightarrow> error + string \<times> field_config" where
  "read_row row =
     (case row_item row ''SEGMENT'' of Inl e \<Rightarrow> Inl e | Inr segment \<Rightarrow>
      case row_item row ''JSON_ATTRIBUTE'' of Inl e \<Rightarrow> Inl e | Inr attr \<Rightarrow>
      case row_item row ''IDENTIFIER'' of Inl e \<Rightarrow> Inl e | Inr ident \<Rightarrow>
      case row_item row ''DISPLAY_NAME'' of Inl e \<Rightarrow> Inl e | Inr disp \<Rightarrow>
      case row_item row ''DATA_TYPE'' of Inl e \<Rightarrow> Inl e | Inr dtype \<Rightarrow>
      case sequence_of row of Inl e \<Rightarrow> Inl e | Inr sq \<Rightarrow>
        Inr (segment,
             \<lparr>identifier = ident, display_name = disp, data_type = dtype,
              unit = row_get row ''UNIT'' [], sequence = sq,
              json_attribute = upper (replace (CHR '' '') (CHR ''_'') attr),
              child_obr = row_get row ''CHILD_OBR'' [],
              segment_id = row_get row ''SEGMENT_ID'' [],
              hl7_key = row_get row ''HL7_KEY'' []\<rparr>))"

text \<open>\<^verbatim>\<open>if k not in d: d[k] = v\<close>.\<close>

definition setdefault :: "('k \<times> 'v) list \<Rightarrow> 'k \<Rightarrow> 'v \<Rightarrow> ('k \<times> 'v) list" where
  "setdefault d k v = (if map_of d k = None then dict_set d k v else d)"

text \<open>\<^verbatim>\<open>d[k]\<close> of a key that is known to be there (an empty value otherwise).\<close>

definition dict_at :: "('k \<times> 'v list) list \<Rightarrow> 'k \<Rightarrow> 'v list" where
  "dict_at d k = (case map_of d k of Some v \<Rightarrow> v | None \<Rightarrow> [])"

text \<open>The second half of the loop body: where the row is filed.\<close>

definition file_row :: "mappings \<Rightarrow> string \<times> field_config \<Rightarrow> mappings" where
  "file_row m p =
     (let segment = fst p; fc = snd p;
          order1 = (if segment \<in> set (segment_order m) then segment_order m
                    else segment_order m @ [segment]);
          segs1 = setdefault (segments m) segment [];
          grouped = (segment = ''OBX'' \<and> child_obr fc \<noteq> []);
          secs1 = (if grouped then setdefault (obr_sections m) (child_obr fc) [] else obr_sections m);
          secs2 = (if grouped then dict_set secs1 (child_obr fc) (dict_at secs1 (child_obr fc) @ [fc])
                   else secs1);
          segs2 = (if grouped then segs1
                   else dict_set segs1 segment (dict_set (dict_at segs1 segment) (json_attribute fc) fc))
      in \<lparr>segment_order = order1, segments = segs2, obr_sections = secs2,
          field_sequence =
            dict_set (field_sequence m) (segment @ ''_'' @ json_attribute fc) (sequence fc)\<rparr>)"

fun load_rows :: "mappings \<Rightarrow> row list \<Rightarrow> error + mappings" where
  "load_rows m [] = Inr m"
| "load_rows m (row # rows) =
     (case read_row row of Inl e \<Rightarrow> Inl e | Inr p \<Rightarrow> load_rows (file_row m p) rows)"

text \<open>The two sorting loops; \<^verbatim>\<open>sorted\<close> is stable, as \<open>sort_key\<close> is.\<close>

definition sort_mappings :: "mappings \<Rightarrow> mappings" where
  "sort_mappings m =
     m\<lparr>segments := map (\<lambda>sd. (fst sd, py_dict (sort_key (\<lambda>x. sequence (snd x)) (snd sd)))) (segments m),
       obr_sections := map (\<lambda>sf. (fst sf, sort_key sequence (snd sf))) (obr_sections m)\<rparr>"

definition build_dynamic_mappings :: "row list \<Rightarrow> error + mappings" where
  "build_dynamic_mappings config_data =
     (case load_rows \<lparr>segment_order = [], segments = [], obr_sections = [], field_sequence = []\<rparr>
             config_data of
        Inl e \<Rightarrow> Inl e
      | Inr m \<Rightarrow> Inr (sort_mappings m))"

section \<open>The clock\<close>

text \<open>
  \<^verbatim>\<open>datetime.now()\<close> is a reading of the clock. The clock is the sequence of its readings
  and the state is the number of readings taken so far.
\<close>

record datetime =
  year :: nat
  month :: nat
  day :: nat
  hour :: nat
  minute :: nat
  second :: nat
  microsecond :: nat

type_synonym clock = "nat \<Rightarrow> datetime"

definition zpad :: "nat \<Rightarrow> string \<Rightarrow> string" where
  "zpad w s = replicate (w - length s) (CHR ''0'') @ s"

text \<open>\<^verbatim>\<open>strftime("%Y%m%d%H%M%S")\<close> and \<^verbatim>\<open>isoformat()\<close>.\<close>

definition strftime :: "datetime \<Rightarrow> string" where
  "strftime t =
     zpad 4 (str_nat (year t)) @ zpad 2 (str_nat (month t)) @ zpad 2 (str_nat (day t)) @
     zpad 2 (str_nat (hour t)) @ zpad 2 (str_nat (minute t)) @ zpad 2 (str_nat (second t))"

definition isoformat :: "datetime \<Rightarrow> string" where
  "isoformat t =
     zpad 4 (str_nat (year t)) @ ''-'' @ zpad 2 (str_nat (month t)) @ ''-'' @
     zpad 2 (str_nat (day t)) @ ''T'' @ zpad 2 (str_nat (hour t)) @ '':'' @
     zpad 2 (str_nat (minute t)) @ '':'' @ zpad 2 (str_nat (second t)) @
     (if microsecond t = 0 then [] else ''.'' @ zpad 6 (str_nat (microsecond t)))"

definition get_timestamp :: "clock \<Rightarrow> nat \<Rightarrow> string \<times> nat" where
  "get_timestamp now n = (strftime (now n), Suc n)"

section \<open>The fixed segments\<close>

definition version :: string where
  "version = ''2.5''"

definition preamble :: string where
  "preamble = ''|^~'' @ [CHR 0x5C] @ ''&|SENDING_APP|SENDING_FACILITY|RECEIVING_APP|RECEIVING_FACILITY|''"

definition msh_line :: "string \<Rightarrow> string \<Rightarrow> string" where
  "msh_line ts1 ts2 = ''MSH'' @ preamble @ ts1 @ ''||ORU^R01|'' @ ts2 @ ''|P|'' @ version"

definition bhs_line :: "string \<Rightarrow> string \<Rightarrow> string \<Rightarrow> string" where
  "bhs_line ts batch_type batch_id =
     ''BHS'' @ preamble @ ts @ ''||BatchType-'' @ batch_type @ ''||'' @ batch_id"

definition pv1_line :: "int \<Rightarrow> string \<Rightarrow> string" where
  "pv1_line set_id clinic_name = ''PV1|'' @ str_int set_id @ ''|o|^^^'' @ clinic_name"

definition orc_line :: "string \<Rightarrow> string \<Rightarrow> string" where
  "orc_line treatment_id ts = ''ORC|RE|'' @ treatment_id @ ''|FILLER_ID|||||||'' @ ts"

text \<open>The body of the loop over the PID fields: what one field adds to \<^verbatim>\<open>id_fields\<close>.\<close>

definition id_token :: "field_config \<Rightarrow> json \<Rightarrow> string list" where
  "id_token fc field_value =
     (if truthy field_value
      then (if json_attribute fc = ''ERP_PATIENT_ID'' \<or> json_attribute fc = ''BAXTER_PATIENT_ID''
            then [py_str field_value @ ''^^^Baxter_Patient_ID'']
            else if json_attribute fc = ''CLINIC_PATIENT_ID''
            then [py_str field_value @ ''^^^Clinic_Patient_ID'']
            else [])
      else [])"

fun pid_id_fields :: "json \<Rightarrow> string list \<Rightarrow> field_config list \<Rightarrow> error + string list" where
  "pid_id_fields data id_fields [] = Inr id_fields"
| "pid_id_fields data id_fields (fc # fcs) =
     (case get_field_value data (''PATIENT_INFO.'' @ json_attribute fc) of
        Inl e \<Rightarrow> Inl e
      | Inr v \<Rightarrow> pid_id_fields data (id_fields @ id_token fc v) fcs)"

definition build_pid :: "mappings \<Rightarrow> json \<Rightarrow> int \<Rightarrow> error + string list" where
  "build_pid m data set_id =
     (case map_of (segments m) ''PID'' of None \<Rightarrow> Inl KeyError | Some pid \<Rightarrow>
      case pid_id_fields data [] (map snd pid) of Inl e \<Rightarrow> Inl e | Inr id_fields \<Rightarrow>
      case get_field_value data ''PATIENT_INFO.FIRST_NAME'' of Inl e \<Rightarrow> Inl e | Inr first_name \<Rightarrow>
      case get_field_value data ''PATIENT_INFO.LAST_NAME'' of Inl e \<Rightarrow> Inl e | Inr last_name \<Rightarrow>
      case get_field_value data ''PATIENT_INFO.MIDDLE_NAME'' of Inl e \<Rightarrow> Inl e | Inr middle_name \<Rightarrow>
        Inr [join ''|''
              ([''PID'', str_int set_id] @ id_fields @ replicate (4 - length id_fields) [] @
               [if truthy first_name \<or> truthy last_name
                then str_or last_name [] @ ''^'' @ str_or first_name [] @ ''^'' @ str_or middle_name []
                else []])])"

definition build_segment ::
  "mappings \<Rightarrow> clock \<Rightarrow> string \<Rightarrow> json \<Rightarrow> int \<Rightarrow> nat \<Rightarrow> (error + string list) \<times> nat" where
  "build_segment m now segment_type data set_id n =
     (if segment_type = ''MSH'' then
        (let t1 = get_timestamp now n; t2 = get_timestamp now (snd t1)
         in (Inr [msh_line (fst t1) (fst t2)], snd t2))
      else if segment_type = ''BHS'' then
        (case py_get data ''BATCH'' (JDict []) of Inl e \<Rightarrow> (Inl e, n) | Inr batch_data \<Rightarrow>
           (let t = get_timestamp now n in
            case py_get batch_data ''TYPE'' (JStr ''Normal'') of Inl e \<Rightarrow> (Inl e, snd t) | Inr ty \<Rightarrow>
            case py_get batch_data ''ID'' (JStr []) of Inl e \<Rightarrow> (Inl e, snd t) | Inr bid \<Rightarrow>
              (Inr [bhs_line (fst t) (py_str ty) (py_str bid)], snd t)))
      else if segment_type = ''PID'' then (build_pid m data set_id, n)
      else if segment_type = ''PV1'' then
        (case get_field_value data ''PATIENT_INFO.CLINIC_NAME'' of Inl e \<Rightarrow> (Inl e, n) | Inr v \<Rightarrow>
           (Inr [pv1_line set_id (str_or v ''XYZClinic'')], n))
      else if segment_type = ''ORC'' then
        (case get_field_value data ''PATIENT_INFO.TREATMENT_ID'' of Inl e \<Rightarrow> (Inl e, n) | Inr v \<Rightarrow>
           (let t = get_timestamp now n in (Inr [orc_line (str_or v []) (fst t)], snd t)))
      else (Inr [], n))"

section \<open>The configured groups\<close>

definition obr_line :: "int \<Rightarrow> field_config \<Rightarrow> string" where
  "obr_line obr_counter obr_config =
     ''OBR|'' @ str_int obr_counter @ ''|||'' @ identifier obr_config @ ''^'' @
     display_name obr_config @ ''|||202510151234'' @ str_int (23 + obr_counter)"

definition obx_line :: "field_config \<Rightarrow> json \<Rightarrow> int \<Rightarrow> int \<Rightarrow> string" where
  "obx_line obx_config v obr_set_id obx_set_id =
     ''OBX|'' @ str_int obx_set_id @ ''|'' @ data_type obx_config @ ''|'' @
     identifier obx_config @ ''^'' @ display_name obx_config @ ''|'' @ str_int obr_set_id @ ''|'' @
     py_str v @ (if unit obx_config \<noteq> [] then ''|'' @ unit obx_config else []) @ ''|||||F''"

definition add_obx_segment ::
  "string list \<Rightarrow> field_config \<Rightarrow> json \<Rightarrow> int \<Rightarrow> int \<Rightarrow> string list" where
  "add_obx_segment segs obx_config v obr_set_id obx_set_id =
     segs @ [obx_line obx_config v obr_set_id obx_set_id]"

text \<open>The search \<^verbatim>\<open>for config in ...: if config['json_attribute'] == key: ... break\<close>.\<close>

definition matching_config :: "field_config list \<Rightarrow> string \<Rightarrow> field_config option" where
  "matching_config configs key = find (\<lambda>config. json_attribute config = key) configs"

text \<open>The loop over \<^verbatim>\<open>value.items()\<close> under the key \<^verbatim>\<open>CYCLEATTRIBUTES\<close>; the state is the
  segment list and the child counter.\<close>

fun cycle_attributes ::
  "field_config list \<Rightarrow> int \<Rightarrow> (string \<times> json) list \<Rightarrow> string list \<Rightarrow> int \<Rightarrow> string list \<times> int" where
  "cycle_attributes configs obr_counter [] segs obx_counter = (segs, obx_counter)"
| "cycle_attributes configs obr_counter ((attr_key, attr_value) # rest) segs obx_counter =
     (case matching_config configs attr_key of
        Some config \<Rightarrow>
          cycle_attributes configs obr_counter rest
            (add_obx_segment segs config attr_value obr_counter obx_counter) (obx_counter + 1)
      | None \<Rightarrow> cycle_attributes configs obr_counter rest segs obx_counter)"

text \<open>The loop over \<^verbatim>\<open>nested_data.items()\<close> of \<^verbatim>\<open>_process_nested_obx\<close>.\<close>

fun nested_items ::
  "field_config list \<Rightarrow> int \<Rightarrow> (string \<times> json) list \<Rightarrow> string list \<Rightarrow> int \<Rightarrow> error + string list" where
  "nested_items configs obr_counter [] segs obx_counter = Inr segs"
| "nested_items configs obr_counter ((key, v) # rest) segs obx_counter =
     (if key = ''CYCLEATTRIBUTES'' then
        (case v of
           JDict attrs \<Rightarrow>
             (let r = cycle_attributes configs obr_counter attrs segs obx_counter
              in nested_items configs obr_counter rest (fst r) (snd r))
         | _ \<Rightarrow> Inl AttributeError)
      else
        (case matching_config configs key of
           Some config \<Rightarrow>
             nested_items configs obr_counter rest
               (add_obx_segment segs config v obr_counter obx_counter) (obx_counter + 1)
         | None \<Rightarrow> nested_items configs obr_counter rest segs obx_counter))"

text \<open>\<^verbatim>\<open>_process_nested_obx\<close> appends to the caller's list; its child counter is its own.\<close>

definition process_nested_obx ::
  "mappings \<Rightarrow> string list \<Rightarrow> (string \<times> json) list \<Rightarrow> int \<Rightarrow> field_config \<Rightarrow> int \<Rightarrow> error + string list" where
  "process_nested_obx m segs nested_data obr_counter obx_config obx_counter =
     nested_items (dict_at (obr_sections m) (child_obr obx_config)) obr_counter nested_data
       segs obx_counter"

text \<open>The loop \<^verbatim>\<open>for item in field_value\<close>; the state is the segment list, the parent counter
  and the child counter.\<close>

fun list_items ::
  "mappings \<Rightarrow> field_config \<Rightarrow> json list \<Rightarrow> string list \<Rightarrow> int \<Rightarrow> int \<Rightarrow>
   error + string list \<times> int \<times> int" where
  "list_items m obx_config [] segs obr_counter obx_counter = Inr (segs, obr_counter, obx_counter)"
| "list_items m obx_config (item # items) segs obr_counter obx_counter =
     (case item of
        JDict nested \<Rightarrow>
          (case process_nested_obx m segs nested obr_counter obx_config obx_counter of
             Inl e \<Rightarrow> Inl e
           | Inr segs' \<Rightarrow> list_items m obx_config items segs' (obr_counter + 1) 1)
      | _ \<Rightarrow>
          list_items m obx_config items
            (add_obx_segment segs obx_config item obr_counter obx_counter) obr_counter
            (obx_counter + 1))"

text \<open>The loop \<^verbatim>\<open>for obx_config in obx_fields\<close> of \<^verbatim>\<open>_build_obr_section\<close>.\<close>

fun obx_fields_loop ::
  "mappings \<Rightarrow> string \<Rightarrow> json \<Rightarrow> field_config list \<Rightarrow> string list \<Rightarrow> int \<Rightarrow> int \<Rightarrow>
   error + string list \<times> int \<times> int" where
  "obx_fields_loop m obr_section data [] segs obr_counter obx_counter =
     Inr (segs, obr_counter, obx_counter)"
| "obx_fields_loop m obr_section data (obx_config # rest) segs obr_counter obx_counter =
     (case get_field_value data (json_attribute obx_config) of Inl e \<Rightarrow> Inl e | Inr v0 \<Rightarrow>
      case (if v0 = JNull
            then get_field_value data (obr_section @ ''.'' @ json_attribute obx_config)
            else Inr v0) of Inl e \<Rightarrow> Inl e | Inr field_value \<Rightarrow>
        (if field_value \<noteq> JNull then
           (case field_value of
              JList items \<Rightarrow>
                (case list_items m obx_config items segs obr_counter obx_counter of
                   Inl e \<Rightarrow> Inl e
                 | Inr st \<Rightarrow> obx_fields_loop m obr_section data rest (fst st) (fst (snd st)) (snd (snd st)))
            | _ \<Rightarrow>
                obx_fields_loop m obr_section data rest
                  (add_obx_segment segs obx_config field_value obr_counter obx_counter)
                  obr_counter (obx_counter + 1))
         else obx_fields_loop m obr_section data rest segs obr_counter obx_counter))"

definition build_obr_section :: "mappings \<Rightarrow> string \<Rightarrow> json \<Rightarrow> int \<Rightarrow> error + string list" where
  "build_obr_section m obr_section data obr_counter =
     (case map_of (segments m) ''OBR'' of None \<Rightarrow> Inl KeyError | Some obr \<Rightarrow>
      case map_of obr obr_section of None \<Rightarrow> Inr [] | Some obr_config \<Rightarrow>
      case obx_fields_loop m obr_section data (dict_at (obr_sections m) obr_section)
             [obr_line obr_counter obr_config] obr_counter 1 of
        Inl e \<Rightarrow> Inl e
      | Inr st \<Rightarrow> Inr (fst st))"

section \<open>The message\<close>

text \<open>The loop over \<^verbatim>\<open>['BHS', 'MSH', 'PID', 'PV1', 'ORC']\<close>.\<close>

fun fixed_segments ::
  "mappings \<Rightarrow> clock \<Rightarrow> json \<Rightarrow> string list \<Rightarrow> string list \<Rightarrow> nat \<Rightarrow> (error + string list) \<times> nat" where
  "fixed_segments m now data [] hl7_segments n = (Inr hl7_segments, n)"
| "fixed_segments m now data (segment_type # rest) hl7_segments n =
     (case build_segment m now segment_type data 1 n of
        (Inl e, n') \<Rightarrow> (Inl e, n')
      | (Inr segs, n') \<Rightarrow> fixed_segments m now data rest (hl7_segments @ segs) n')"

text \<open>The loop over \<^verbatim>\<open>obr_sections.keys()\<close>, with the message-wide parent counter.\<close>

fun obr_sections_loop ::
  "mappings \<Rightarrow> json \<Rightarrow> string list \<Rightarrow> string list \<Rightarrow> int \<Rightarrow> error + string list" where
  "obr_sections_loop m data [] hl7_segments obr_counter = Inr hl7_segments"
| "obr_sections_loop m data (obr_section # rest) hl7_segments obr_counter =
     (case build_obr_section m obr_section data obr_counter of
        Inl e \<Rightarrow> Inl e
      | Inr obr_segments \<Rightarrow>
          obr_sections_loop m data rest (hl7_segments @ obr_segments)
            (if obr_segments \<noteq> []
             then obr_counter + int (length (filter (\<lambda>s. startswith s ''OBR'') obr_segments))
             else obr_counter))"

text \<open>The body of \<^verbatim>\<open>generate_hl7\<close> up to the final \<^verbatim>\<open>join\<close>: the list \<^verbatim>\<open>hl7_segments\<close>.\<close>

definition hl7_segments_of :: "mappings \<Rightarrow> clock \<Rightarrow> json \<Rightarrow> nat \<Rightarrow> (error + string list) \<times> nat" where
  "hl7_segments_of m now json_data n =
     (let normalized_data = normalize_json_data json_data in
      case fixed_segments m now normalized_data [''BHS'', ''MSH'', ''PID'', ''PV1'', ''ORC''] [] n of
        (Inl e, n') \<Rightarrow> (Inl e, n')
      | (Inr hl7, n') \<Rightarrow>
         (case get_field_value normalized_data ''PATIENT_INFO.TREATMENT_ID'' of
            Inl e \<Rightarrow> (Inl e, n')
          | Inr treatment_id \<Rightarrow>
         (case get_field_value normalized_data ''PATIENT_INFO.DEVICE_TYPE'' of
            Inl e \<Rightarrow> (Inl e, n')
          | Inr device_type \<Rightarrow>
         (case obr_sections_loop m normalized_data (map fst (obr_sections m))
                 (hl7 @
                  [''OBR|1|||VITAL_SIGNS^Vitals Panel^CLINIC_APP|||20251015123423'',
                   ''NTE|1||Treatment ID: '' @ str_or treatment_id [] @ ''|'',
                   ''NTE|2||Clinic Timezone: PST''] @
                  (if truthy device_type
                   then [''OBX|1|ST|DEVICE_TYPE^Device Type|1|'' @ py_str device_type @ ''||||||F'']
                   else []))
                 2 of
            Inl e \<Rightarrow> (Inl e, n')
          | Inr hl7' \<Rightarrow> (Inr (hl7' @ [''BTS|1|final segment|100'']), n')))))"

definition generate_hl7 :: "mappings \<Rightarrow> clock \<Rightarrow> json \<Rightarrow> nat \<Rightarrow> (error + string) \<times> nat" where
  "generate_hl7 m now json_data n =
     (case hl7_segments_of m now json_data n of
        (Inl e, n') \<Rightarrow> (Inl e, n')
      | (Inr hl7, n') \<Rightarrow> (Inr (join [CHR 0x0A] hl7), n'))"

section \<open>The batch\<close>

text \<open>One entry of the result list of \<^verbatim>\<open>process_batch\<close>: \<open>number\<close> is its key
  \<^verbatim>\<open>'sequence'\<close> and \<open>failure\<close> its key \<^verbatim>\<open>'error'\<close>, which keeps the exception itself where
  the source keeps its text.\<close>

record outcome =
  number :: int
  status :: string
  hl7_message :: "string option"
  failure :: "error option"
  timestamp :: string

text \<open>The body of the loop: the \<^verbatim>\<open>try\<close> with its handler, for the record numbered \<open>i\<close>.\<close>

definition process_one :: "mappings \<Rightarrow> clock \<Rightarrow> int \<Rightarrow> json \<Rightarrow> nat \<Rightarrow> outcome \<times> nat" where
  "process_one m now i json_data n =
     (case generate_hl7 m now json_data n of
        (Inr msg, n') \<Rightarrow>
          (\<lparr>number = i, status = ''success'', hl7_message = Some msg, failure = None,
            timestamp = isoformat (now n')\<rparr>, Suc n')
      | (Inl e, n') \<Rightarrow>
          (\<lparr>number = i, status = ''error'', hl7_message = None, failure = Some e,
            timestamp = isoformat (now n')\<rparr>, Suc n'))"

text \<open>\<^verbatim>\<open>for i, json_data in enumerate(json_data_list, 1)\<close>.\<close>

fun batch_loop ::
  "mappings \<Rightarrow> clock \<Rightarrow> int \<Rightarrow> json list \<Rightarrow> outcome list \<Rightarrow> nat \<Rightarrow> outcome list \<times> nat" where
  "batch_loop m now i [] results n = (results, n)"
| "batch_loop m now i (json_data # rest) results n =
     (let r = process_one m now i json_data n
      in batch_loop m now (i + 1) rest (results @ [fst r]) (snd r))"

definition process_batch :: "mappings \<Rightarrow> clock \<Rightarrow> json list \<Rightarrow> nat \<Rightarrow> outcome list \<times> nat" where
  "process_batch m now json_data_list n = batch_loop m now 1 json_data_list [] n"

section \<open>Definitions used in the statements\<close>


text \<open>The configuration row and the record of the patient identifier example; the row's
  display name and data type are left open.\<close>

definition clinic_row :: "string \<Rightarrow> string \<Rightarrow> row" where
  "clinic_row display dtype =
     [(''SEGMENT'', ''PID''), (''JSON_ATTRIBUTE'', ''Clinic Patient ID''), (''SEQUENCE'', ''1''),
      (''IDENTIFIER'', ''CPID''), (''DISPLAY_NAME'', display), (''DATA_TYPE'', dtype)]"

definition clinic_config :: "string \<Rightarrow> string \<Rightarrow> field_config" where
  "clinic_config display dtype =
     \<lparr>identifier = ''CPID'', display_name = display, data_type = dtype, unit = [], sequence = 1,
      json_attribute = ''CLINIC_PATIENT_ID'', child_obr = [], segment_id = [], hl7_key = []\<rparr>"

definition clinic_record :: json where
  "clinic_record = JDict [(''PATIENT_INFO'', JDict [(''CLINIC_PATIENT_ID'', JStr ''9820609'')])]"

text \<open>A clock that advances one second with every reading.\<close>

definition ticking :: clock where
  "ticking k = \<lparr>year = 2025, month = 10, day = 15, hour = 12, minute = 34, second = k, microsecond = 0\<rparr>"

text \<open>The lines of a segment list that \<^verbatim>\<open>generate_hl7\<close> counts as parent lines.\<close>

definition parent_lines :: "string list \<Rightarrow> string list" where
  "parent_lines segs = filter (\<lambda>s. startswith s ''OBR'') segs"

text \<open>A record with a list whose first item is a dictionary and whose second is a number; a
  configuration with one group of three child fields; a record with two cycle
  sub-records under the group's first child field.\<close>

definition mixed_record :: json where
  "mixed_record = JDict [(''Patient Info'', JList [JDict [(''First Name'', JStr ''Ann'')], JInt 5])]"

definition therapy_rows :: "row list" where
  "therapy_rows =
     [[(''SEGMENT'', ''PID''), (''JSON_ATTRIBUTE'', ''Clinic Patient ID''), (''SEQUENCE'', ''1''),
       (''IDENTIFIER'', ''CPID''), (''DISPLAY_NAME'', ''Clinic Patient ID''), (''DATA_TYPE'', ''ST'')],
      [(''SEGMENT'', ''OBR''), (''JSON_ATTRIBUTE'', ''Therapy''), (''SEQUENCE'', ''1''),
       (''IDENTIFIER'', ''THERAPY''), (''DISPLAY_NAME'', ''Therapy''), (''DATA_TYPE'', ''ST'')],
      [(''SEGMENT'', ''OBX''), (''CHILD_OBR'', ''THERAPY''), (''JSON_ATTRIBUTE'', ''Actual Therapy''),
       (''SEQUENCE'', ''1''), (''IDENTIFIER'', ''AT''), (''DISPLAY_NAME'', ''Actual Therapy''),
       (''DATA_TYPE'', ''ST'')],
      [(''SEGMENT'', ''OBX''), (''CHILD_OBR'', ''THERAPY''), (''JSON_ATTRIBUTE'', ''Cycle Type''),
       (''SEQUENCE'', ''2''), (''IDENTIFIER'', ''CT''), (''DISPLAY_NAME'', ''Cycle Type''),
       (''DATA_TYPE'', ''ST'')],
      [(''SEGMENT'', ''OBX''), (''CHILD_OBR'', ''THERAPY''), (''JSON_ATTRIBUTE'', ''Fill Volume''),
       (''SEQUENCE'', ''3''), (''IDENTIFIER'', ''FV''), (''DISPLAY_NAME'', ''Fill Volume''),
       (''DATA_TYPE'', ''NM''), (''UNIT'', ''mL'')]]"

definition cycles_record :: json where
  "cycles_record =
     JDict [(''Actual Therapy'',
             JList [JDict [(''Cycle Type'', JStr ''Night 1''), (''Fill Volume'', JInt 100)],
                    JDict [(''Cycle Type'', JStr ''Night 2''), (''Fill Volume'', JInt 200)]])]"



text \<open>The compiled configuration of the patient identifier row, and the segments of its
  record under the ticking clock.\<close>

definition clinic_mappings :: mappings where
  "clinic_mappings =
     \<lparr>segment_order = [''PID''],
      segments = [(''PID'', [(''CLINIC_PATIENT_ID'', clinic_config ''Clinic Patient ID'' ''ST'')])],
      obr_sections = [], field_sequence = [(''PID_CLINIC_PATIENT_ID'', 1)]\<rparr>"






text \<open>The exception an encoding of a record ends with, if any. It is read off at a fixed
  clock; \<open>raised_generate_hl7\<close> below shows that no clock changes it.\<close>

definition epoch :: datetime where
  "epoch = \<lparr>year = 1970, month = 1, day = 1, hour = 0, minute = 0, second = 0, microsecond = 0\<rparr>"

definition raised :: "error + 'a \<Rightarrow> error option" where
  "raised r = (case r of Inl e \<Rightarrow> Some e | Inr v \<Rightarrow> None)"

definition encoding_error :: "mappings \<Rightarrow> json \<Rightarrow> error option" where
  "encoding_error m json_data = raised (fst (generate_hl7 m (\<lambda>k. epoch) json_data 0))"

text \<open>A record whose batch entry is a text and not a dictionary, a batch with that record
  in the middle, and the part of an outcome that does not hold a time or a message.\<close>

definition bad_batch_record :: json where
  "bad_batch_record = JDict [(''Batch'', JStr ''nightly'')]"

definition three_records :: "json list" where
  "three_records = [clinic_record, bad_batch_record, clinic_record]"

definition summary :: "outcome \<Rightarrow> int \<times> string \<times> error option" where
  "summary r = (number r, status r, failure r)"

text \<open>A record without the attribute \<open>a\<close> of its patient information: \<open>d\<close> is the record,
  \<open>info\<close> its patient information. Two lookup results have the same presence when they
  are equal or both are values that \<^verbatim>\<open>if value:\<close> rejects. Last, a record whose clinic
  patient identifier is the empty text.\<close>

definition dict_del :: "('k \<times> 'v) list \<Rightarrow> 'k \<Rightarrow> ('k \<times> 'v) list" where
  "dict_del d k = filter (\<lambda>kv. fst kv \<noteq> k) d"

definition without_attribute :: "(string \<times> json) list \<Rightarrow> (string \<times> json) list \<Rightarrow> string \<Rightarrow> json" where
  "without_attribute d info a = JDict (dict_set d ''PATIENT_INFO'' (JDict (dict_del info a)))"

definition same_presence :: "error + json \<Rightarrow> error + json \<Rightarrow> bool" where
  "same_presence r r' = (r = r' \<or> (\<exists>w w'. r = Inr w \<and> r' = Inr w' \<and> \<not> truthy w \<and> \<not> truthy w'))"

definition empty_id_record :: "(string \<times> json) list" where
  "empty_id_record = [(''PATIENT_INFO'', JDict [(''CLINIC_PATIENT_ID'', JStr []), (''FIRST_NAME'', JStr ''John'')])]"

text \<open>
  The rows of a configuration as the loop of \<^verbatim>\<open>_build_dynamic_mappings\<close> reads them, in row
  order; the rows that are filed under a group and the rows that are filed directly
  under a segment; and the dictionary that the loop builds for a segment from its direct
  rows, before it is sorted. Then rows and their field configurations in short, a
  configuration that repeats an attribute in one segment, and one with equal sequence
  numbers in a segment and in a group.
\<close>

definition row_configs :: "row list \<Rightarrow> (string \<times> field_config) list" where
  "row_configs rows = concat (map (\<lambda>row. case read_row row of Inl e \<Rightarrow> [] | Inr p \<Rightarrow> [p]) rows)"

definition is_grouped :: "string \<times> field_config \<Rightarrow> bool" where
  "is_grouped p = (fst p = ''OBX'' \<and> child_obr (snd p) \<noteq> [])"

definition group_fields :: "(string \<times> field_config) list \<Rightarrow> string \<Rightarrow> field_config list" where
  "group_fields ps tag = map snd (filter (\<lambda>p. is_grouped p \<and> child_obr (snd p) = tag) ps)"

definition direct_fields :: "(string \<times> field_config) list \<Rightarrow> string \<Rightarrow> field_config list" where
  "direct_fields ps segment = map snd (filter (\<lambda>p. \<not> is_grouped p \<and> fst p = segment) ps)"

definition filed :: "field_config list \<Rightarrow> (string \<times> field_config) list" where
  "filed fcs = foldl (\<lambda>d fc. dict_set d (json_attribute fc) fc) [] fcs"

definition config_row :: "string \<Rightarrow> string \<Rightarrow> string \<Rightarrow> string \<Rightarrow> string \<Rightarrow> row" where
  "config_row segment child attr sq ident =
     [(''SEGMENT'', segment), (''CHILD_OBR'', child), (''JSON_ATTRIBUTE'', attr), (''SEQUENCE'', sq),
      (''IDENTIFIER'', ident), (''DISPLAY_NAME'', attr), (''DATA_TYPE'', ''ST'')]"

definition row_config :: "string \<Rightarrow> string \<Rightarrow> string \<Rightarrow> int \<Rightarrow> string \<Rightarrow> field_config" where
  "row_config child attr key sq ident =
     \<lparr>identifier = ident, display_name = attr, data_type = ''ST'', unit = [], sequence = sq,
      json_attribute = key, child_obr = child, segment_id = [], hl7_key = []\<rparr>"

definition repeated_rows :: "row list" where
  "repeated_rows =
     [config_row ''PID'' [] ''ERP Patient ID'' ''5'' ''ID1'',
      config_row ''PID'' [] ''Clinic Patient ID'' ''5'' ''ID2'',
      config_row ''PID'' [] ''ERP Patient ID'' ''5'' ''ID3'']"

definition tie_rows :: "row list" where
  "tie_rows =
     [config_row ''PID'' [] ''ERP Patient ID'' ''5'' ''ID1'',
      config_row ''PID'' [] ''Clinic Patient ID'' ''5'' ''ID2'',
      config_row ''PID'' [] ''Baxter Patient ID'' ''1'' ''ID3'',
      config_row ''OBR'' [] ''Therapy'' ''1'' ''THERAPY'',
      config_row ''OBX'' ''THERAPY'' ''Fill Volume'' ''2'' ''FV'',
      config_row ''OBX'' ''THERAPY'' ''Cycle Type'' ''1'' ''CT'',
      config_row ''OBX'' ''THERAPY'' ''Dwell Time'' ''2'' ''DT'']"

definition tie_mappings :: mappings where
  "tie_mappings = projr (build_dynamic_mappings tie_rows)"

section \<open>Key normalisation is idempotent\<close>










section \<open>Dictionaries\<close>

lemma map_of_dict_set: "map_of (dict_set d k x) k' = (if k' = k then Some x else map_of d k')"
  by (induction d) auto

section \<open>The shape of a generated message\<close>










section \<open>The patient identifier example\<close>

lemma py_int_one: "py_int ''1'' = Inr 1"
  by code_simp

lemma clinic_attribute: "upper (replace (CHR '' '') (CHR ''_'') ''Clinic Patient ID'') = ''CLINIC_PATIENT_ID''"
  by code_simp

lemma read_clinic_row: "read_row (clinic_row dn dt) = Inr (''PID'', clinic_config dn dt)"
  by (simp add: read_row_def clinic_row_def row_item_def row_get_def sequence_of_def py_int_one clinic_attribute clinic_config_def)

lemma build_clinic:
  "build_dynamic_mappings [clinic_row dn dt] =
     Inr \<lparr>segment_order = [''PID''], segments = [(''PID'', [(''CLINIC_PATIENT_ID'', clinic_config dn dt)])],
          obr_sections = [], field_sequence = [(''PID_CLINIC_PATIENT_ID'', 1)]\<rparr>"
  by (simp add: build_dynamic_mappings_def read_clinic_row file_row_def setdefault_def dict_at_def
      sort_mappings_def py_dict_def Let_def clinic_config_def)

lemma normalize_clinic: "normalize_json_data clinic_record = clinic_record"
  by code_simp

lemma clinic_lookups: 
  "get_field_value clinic_record ''PATIENT_INFO.CLINIC_PATIENT_ID'' = Inr (JStr ''9820609'')"
  "get_field_value clinic_record ''PATIENT_INFO.FIRST_NAME'' = Inr JNull"
  "get_field_value clinic_record ''PATIENT_INFO.LAST_NAME'' = Inr JNull"
  "get_field_value clinic_record ''PATIENT_INFO.MIDDLE_NAME'' = Inr JNull"
  "get_field_value clinic_record ''PATIENT_INFO.CLINIC_NAME'' = Inr JNull"
  "get_field_value clinic_record ''PATIENT_INFO.TREATMENT_ID'' = Inr JNull"
  "get_field_value clinic_record ''PATIENT_INFO.DEVICE_TYPE'' = Inr JNull"
  by code_simp+


lemma batch_clinic:
  "py_get clinic_record ''BATCH'' (JDict []) = Inr (JDict [])"
  "py_get (JDict []) ''TYPE'' (JStr ''Normal'') = Inr (JStr ''Normal'')"
  "py_get (JDict []) ''ID'' (JStr []) = Inr (JStr [])"
  by code_simp+

lemma pid_id_clinic:
  "pid_id_fields clinic_record [] [clinic_config dn dt] = Inr [''9820609^^^Clinic_Patient_ID'']"
  by (simp add: clinic_lookups clinic_config_def id_token_def py_str_def)

lemma pid_clinic:
  "build_pid \<lparr>segment_order = so, segments = [(''PID'', [(''CLINIC_PATIENT_ID'', clinic_config dn dt)])],
          obr_sections = os, field_sequence = fs\<rparr> clinic_record 1 = Inr [''PID|1|9820609^^^Clinic_Patient_ID||||'']"
proof -
  have "join ''|'' ([''PID'', str_int 1] @ [''9820609^^^Clinic_Patient_ID''] @
          replicate (4 - length [''9820609^^^Clinic_Patient_ID'']) [] @
          [if truthy JNull \<or> truthy JNull then str_or JNull [] @ ''^'' @ str_or JNull [] @ ''^'' @ str_or JNull [] else []])
        = ''PID|1|9820609^^^Clinic_Patient_ID||||''"
    by code_simp
  then show ?thesis
    unfolding build_pid_def
    by (simp add: clinic_lookups del: pid_id_fields.simps add: pid_id_clinic)
qed

lemma fixed_clinic:
  "fixed_segments \<lparr>segment_order = so, segments = [(''PID'', [(''CLINIC_PATIENT_ID'', clinic_config dn dt)])],
          obr_sections = os, field_sequence = fs\<rparr> now clinic_record [''BHS'', ''MSH'', ''PID'', ''PV1'', ''ORC''] [] n
   = (Inr [bhs_line (strftime (now n)) ''Normal'' [], msh_line (strftime (now (Suc n))) (strftime (now (Suc (Suc n)))),
       ''PID|1|9820609^^^Clinic_Patient_ID||||'', pv1_line 1 ''XYZClinic'', orc_line [] (strftime (now (Suc (Suc (Suc n)))))],
      Suc (Suc (Suc (Suc n))))"
  by (simp add: build_segment_def pid_clinic clinic_lookups get_timestamp_def batch_clinic py_str_def str_or_def Let_def)

lemma segments_clinic:
  "hl7_segments_of \<lparr>segment_order = so, segments = [(''PID'', [(''CLINIC_PATIENT_ID'', clinic_config dn dt)])],
          obr_sections = [], field_sequence = fs\<rparr> now clinic_record n
   = (Inr [bhs_line (strftime (now n)) ''Normal'' [], msh_line (strftime (now (Suc n))) (strftime (now (Suc (Suc n)))),
       ''PID|1|9820609^^^Clinic_Patient_ID||||'', pv1_line 1 ''XYZClinic'', orc_line [] (strftime (now (Suc (Suc (Suc n))))),
       ''OBR|1|||VITAL_SIGNS^Vitals Panel^CLINIC_APP|||20251015123423'',
       ''NTE|1||Treatment ID: |'', ''NTE|2||Clinic Timezone: PST'', ''BTS|1|final segment|100''], Suc (Suc (Suc (Suc n))))"
  by (simp add: hl7_segments_of_def normalize_clinic fixed_clinic clinic_lookups str_or_def del: fixed_segments.simps)

lemma token_in_line: "sublist ''9820609^^^Clinic_Patient_ID'' ''PID|1|9820609^^^Clinic_Patient_ID||||''"
proof -
  have "''PID|1|9820609^^^Clinic_Patient_ID||||'' = ''PID|1|'' @ ''9820609^^^Clinic_Patient_ID'' @ ''||||''"
    by simp
  then show ?thesis unfolding sublist_def by blast
qed

text \<open>
  Claim C5. With the configuration row \<open>{segment = PID, attribute = "Clinic Patient ID",
  sequence = 1, identifier = CPID}\<close> and the record
  \<open>{"PATIENT_INFO": {"CLINIC_PATIENT_ID": "9820609"}}\<close>, the configuration compiles, the
  message is generated, and its third line is a PID line that contains the token
  \<open>9820609^^^Clinic_Patient_ID\<close>; this holds for every clock, display name and data type.
\<close>

theorem clinic_patient_id_token:
  "\<exists>m hl7 n'.
     build_dynamic_mappings [clinic_row dn dt] = Inr m \<and>
     hl7_segments_of m now clinic_record n = (Inr hl7, n') \<and>
     generate_hl7 m now clinic_record n = (Inr (join [CHR 0x0A] hl7), n') \<and>
     hl7 ! 2 = ''PID|1|9820609^^^Clinic_Patient_ID||||'' \<and>
     startswith (hl7 ! 2) ''PID'' \<and>
     sublist ''9820609^^^Clinic_Patient_ID'' (hl7 ! 2)"
  by (simp add: build_clinic segments_clinic generate_hl7_def token_in_line startswith_def)

theorem clinic_patient_id_token_witness:
  "\<exists>m hl7 n'.
     build_dynamic_mappings [clinic_row ''Clinic Patient ID'' ''ST''] = Inr m \<and>
     hl7_segments_of m ticking clinic_record 0 = (Inr hl7, n') \<and>
     generate_hl7 m ticking clinic_record 0 = (Inr (join [CHR 0x0A] hl7), n') \<and>
     hl7 ! 2 = ''PID|1|9820609^^^Clinic_Patient_ID||||'' \<and>
     startswith (hl7 ! 2) ''PID'' \<and>
     sublist ''9820609^^^Clinic_Patient_ID'' (hl7 ! 2)"
  by (rule clinic_patient_id_token)

section \<open>Path resolution on a mixed list\<close>

text \<open>
  Claim C6, at the record \<open>{"Patient Info": [{"First Name": "Ann"}, 5]}\<close> and the path
  \<open>PATIENT_INFO.FIRST_NAME\<close>: the first list item is a dictionary with the key, so every
  item is asked for it with \<^verbatim>\<open>item.get(key)\<close>; the second item is a number, the call
  raises \<^verbatim>\<open>AttributeError\<close>, and the handler of \<^verbatim>\<open>_get_field_value\<close> does not name that
  exception. The encoding of the record fails with it.
\<close>

theorem mixed_list_raises:
  "get_field_value (normalize_json_data mixed_record) ''PATIENT_INFO.FIRST_NAME'' = Inl AttributeError \<and>
   fst (generate_hl7 clinic_mappings ticking mixed_record 0) = Inl AttributeError"
  by code_simp

section \<open>Two cycle sub-records in one group\<close>

text \<open>
  Claim C1, at a group \<open>THERAPY\<close> with three child fields and a record whose attribute
  \<open>Actual Therapy\<close> holds two cycle sub-records: \<^verbatim>\<open>_build_obr_section\<close> emits one parent
  line, numbered 2. For the second sub-record the parent counter is raised to 3 and the
  child counter starts again at 1, but no parent line numbered 3 is emitted.
\<close>

theorem two_cycles_one_parent_line:
  "(case build_dynamic_mappings therapy_rows of
      Inl e \<Rightarrow> Inl e
    | Inr m \<Rightarrow> build_obr_section m ''THERAPY'' (normalize_json_data cycles_record) 2) =
   Inr [''OBR|2|||THERAPY^Therapy|||20251015123425'',
        ''OBX|1|ST|CT^Cycle Type|2|Night 1|||||F'',
        ''OBX|2|NM|FV^Fill Volume|2|100|mL|||||F'',
        ''OBX|1|ST|CT^Cycle Type|3|Night 2|||||F'',
        ''OBX|2|NM|FV^Fill Volume|3|200|mL|||||F''] \<and>
   parent_lines
     [''OBR|2|||THERAPY^Therapy|||20251015123425'',
      ''OBX|1|ST|CT^Cycle Type|2|Night 1|||||F'',
      ''OBX|2|NM|FV^Fill Volume|2|100|mL|||||F'',
      ''OBX|1|ST|CT^Cycle Type|3|Night 2|||||F'',
      ''OBX|2|NM|FV^Fill Volume|3|200|mL|||||F''] =
   [''OBR|2|||THERAPY^Therapy|||20251015123425'']"
  by code_simp

section \<open>The sequence cell of a configuration row\<close>




section \<open>Readings of the clock in one message\<close>





section \<open>The parent counter of one message\<close>









lemma parent_lines_append [simp]: "parent_lines (xs @ ys) = parent_lines xs @ parent_lines ys"
  by (simp add: parent_lines_def)
















section \<open>The batch runner\<close>

lemma raised_simps [simp]: "raised (Inl e) = Some e" "raised (Inr v) = None"
  by (simp_all add: raised_def)

lemma raised_case:
  "raised (fst (case x of Inl e \<Rightarrow> (Inl e, k) | Inr v \<Rightarrow> (Inr (f v), k))) = raised x"
  by (cases x) simp_all

lemma raised_build_segment:
  "raised (fst (build_segment m now t data sid n)) = raised (fst (build_segment m now' t data sid n'))"
  by (simp add: build_segment_def Let_def split: sum.splits)

lemma raised_fixed_segments:
  "raised (fst (fixed_segments m now data ts hl7 n)) =
   raised (fst (fixed_segments m now' data ts hl7' n'))"
proof (induction ts arbitrary: hl7 hl7' n n')
  case Nil
  then show ?case by simp
next
  case (Cons t ts)
  obtain r k where a: "build_segment m now t data 1 n = (r, k)" by force
  obtain r' k' where b: "build_segment m now' t data 1 n' = (r', k')" by force
  from raised_build_segment [of m now t data 1 n now' n'] a b have rr: "raised r = raised r'" by simp
  show ?case
  proof (cases r)
    case (Inl e)
    with rr obtain e' where "r' = Inl e'" "e' = e" by (cases r') simp_all
    with Inl a b show ?thesis by simp
  next
    case (Inr segs)
    with rr obtain segs' where "r' = Inr segs'" by (cases r') simp_all
    with Inr a b Cons.IH [of "hl7 @ segs" k "hl7' @ segs'" k'] show ?thesis by simp
  qed
qed

lemma raised_obr_sections_loop:
  "raised (obr_sections_loop m data secs hl7 c) = raised (obr_sections_loop m data secs hl7' c)"
proof (induction secs arbitrary: hl7 hl7' c)
  case Nil
  then show ?case by simp
next
  case (Cons sec secs)
  then show ?case by (cases "build_obr_section m sec data c") simp_all
qed


lemma raised_hl7_segments_of:
  "raised (fst (hl7_segments_of m now json_data n)) = raised (fst (hl7_segments_of m now' json_data n'))"
proof -
  let ?d = "normalize_json_data json_data"
  let ?ts = "[''BHS'', ''MSH'', ''PID'', ''PV1'', ''ORC'']"
  obtain r k where a: "fixed_segments m now ?d ?ts [] n = (r, k)" by force
  obtain r' k' where b: "fixed_segments m now' ?d ?ts [] n' = (r', k')" by force
  from raised_fixed_segments [of m now ?d ?ts "[]" n now' "[]" n'] a b
  have rr: "raised r = raised r'" by simp
  show ?thesis
  proof (cases r)
    case (Inl e)
    with rr obtain e' where "r' = Inl e'" "e' = e" by (cases r') simp_all
    with Inl a b show ?thesis by (simp add: hl7_segments_of_def Let_def del: fixed_segments.simps)
  next
    case (Inr five)
    with rr obtain five' where r': "r' = Inr five'" by (cases r') simp_all
    show ?thesis
    proof (cases "get_field_value ?d ''PATIENT_INFO.TREATMENT_ID''")
      case (Inl e)
      with Inr r' a b show ?thesis
        by (simp add: hl7_segments_of_def Let_def del: fixed_segments.simps)
    next
      case tr: (Inr treatment)
      show ?thesis
      proof (cases "get_field_value ?d ''PATIENT_INFO.DEVICE_TYPE''")
        case (Inl e)
        with tr Inr r' a b show ?thesis
          by (simp add: hl7_segments_of_def Let_def del: fixed_segments.simps)
      next
        case dev: (Inr device)
        let ?mid = "[''OBR|1|||VITAL_SIGNS^Vitals Panel^CLINIC_APP|||20251015123423'',
                   ''NTE|1||Treatment ID: '' @ str_or treatment [] @ ''|'',
                   ''NTE|2||Clinic Timezone: PST''] @
                  (if truthy device
                   then [''OBX|1|ST|DEVICE_TYPE^Device Type|1|'' @ py_str device @ ''||||||F'']
                   else [])"
        from dev tr Inr a
        have 1: "raised (fst (hl7_segments_of m now json_data n)) =
              raised (obr_sections_loop m ?d (map fst (obr_sections m)) (five @ ?mid) 2)"
          by (simp add: hl7_segments_of_def Let_def raised_case del: fixed_segments.simps)
        from dev tr r' b
        have 2: "raised (fst (hl7_segments_of m now' json_data n')) =
              raised (obr_sections_loop m ?d (map fst (obr_sections m)) (five' @ ?mid) 2)"
          by (simp add: hl7_segments_of_def Let_def raised_case del: fixed_segments.simps)
        show ?thesis unfolding 1 2 by (rule raised_obr_sections_loop)
      qed
    qed
  qed
qed

lemma raised_generate_hl7:
  "raised (fst (generate_hl7 m now json_data n)) = encoding_error m json_data"
proof -
  have "raised (fst (generate_hl7 m now json_data n)) = raised (fst (hl7_segments_of m now json_data n))"
    for now n
    by (simp add: generate_hl7_def split: prod.splits sum.splits)
  then show ?thesis
    unfolding encoding_error_def using raised_hl7_segments_of by simp
qed

lemma process_one_fields:
  "number (fst (process_one m now i json_data n)) = i"
  "failure (fst (process_one m now i json_data n)) = encoding_error m json_data"
  "status (fst (process_one m now i json_data n)) =
     (if encoding_error m json_data = None then ''success'' else ''error'')"
  "hl7_message (fst (process_one m now i json_data n)) =
     (case fst (generate_hl7 m now json_data n) of Inl e \<Rightarrow> None | Inr msg \<Rightarrow> Some msg)"
  "\<exists>t. timestamp (fst (process_one m now i json_data n)) = isoformat (now t)"
  unfolding raised_generate_hl7 [of m now json_data n, symmetric]
  by (auto simp add: process_one_def split: prod.splits sum.splits)

lemma batch_loop_outcomes:
  "batch_loop m now i recs acc n = (results, n') \<Longrightarrow>
   \<exists>outs. results = acc @ outs \<and> length outs = length recs \<and>
     (\<forall>j < length recs. \<exists>t. outs ! j = fst (process_one m now (i + int j) (recs ! j) t))"
proof (induction recs arbitrary: i acc n)
  case Nil
  then show ?case by simp
next
  case (Cons r recs)
  let ?o = "process_one m now i r n"
  from Cons.prems have "batch_loop m now (i + 1) recs (acc @ [fst ?o]) (snd ?o) = (results, n')"
    by (simp add: Let_def)
  from Cons.IH [OF this] obtain outs where
    outs: "results = (acc @ [fst ?o]) @ outs" "length outs = length recs"
    "\<forall>j < length recs. \<exists>t. outs ! j = fst (process_one m now (i + 1 + int j) (recs ! j) t)"
    by blast
  have "\<exists>t. (fst ?o # outs) ! j = fst (process_one m now (i + int j) ((r # recs) ! j) t)"
    if "j < length (r # recs)" for j
  proof (cases j)
    case 0
    then show ?thesis by auto
  next
    case (Suc j')
    with that outs(3) have "\<exists>t. outs ! j' = fst (process_one m now (i + 1 + int j') (recs ! j') t)"
      by simp
    with Suc show ?thesis by (simp add: add.assoc)
  qed
  with outs(1,2) have "results = acc @ (fst ?o # outs) \<and> length (fst ?o # outs) = length (r # recs) \<and>
     (\<forall>j < length (r # recs). \<exists>t. (fst ?o # outs) ! j = fst (process_one m now (i + int j) ((r # recs) ! j) t))"
    by simp
  then show ?case by blast
qed

lemma three_records_evaluation:
  "map summary (fst (process_batch clinic_mappings ticking three_records 0)) =
     [(1, ''success'', None), (2, ''error'', Some AttributeError), (3, ''success'', None)]"
  by code_simp

text \<open>
  Claim C7. \<^verbatim>\<open>process_batch\<close> returns one outcome per input record, in the order of the
  input. Outcome \<open>i\<close> (counted from 0) carries the number \<open>i + 1\<close> and a timestamp read
  from the clock; it has the status \<open>error\<close> and holds the exception exactly when the
  encoding of record \<open>i\<close> raises one, and otherwise the status \<open>success\<close> and the message
  generated from record \<open>i\<close>. Whether record \<open>i\<close> fails depends on that record and the
  configuration alone, not on the other records of the batch nor on the clock.
\<close>

theorem batch_failures_isolated:
  assumes "process_batch m now json_data_list n = (results, n')"
  shows "length results = length json_data_list \<and>
         (\<forall>i < length json_data_list.
            number (results ! i) = int i + 1 \<and>
            (\<exists>t. timestamp (results ! i) = isoformat (now t)) \<and>
            failure (results ! i) = encoding_error m (json_data_list ! i) \<and>
            status (results ! i) =
              (if encoding_error m (json_data_list ! i) = None then ''success'' else ''error'') \<and>
            (\<exists>t. hl7_message (results ! i) =
                   (case fst (generate_hl7 m now (json_data_list ! i) t) of
                      Inl e \<Rightarrow> None | Inr msg \<Rightarrow> Some msg)))"
proof -
  from batch_loop_outcomes [OF assms [unfolded process_batch_def]] obtain outs where
    outs: "results = outs" "length outs = length json_data_list"
    "\<forall>j < length json_data_list. \<exists>t. outs ! j = fst (process_one m now (1 + int j) (json_data_list ! j) t)"
    by auto
  have "number (results ! i) = int i + 1 \<and>
            (\<exists>t. timestamp (results ! i) = isoformat (now t)) \<and>
            failure (results ! i) = encoding_error m (json_data_list ! i) \<and>
            status (results ! i) =
              (if encoding_error m (json_data_list ! i) = None then ''success'' else ''error'') \<and>
            (\<exists>t. hl7_message (results ! i) =
                   (case fst (generate_hl7 m now (json_data_list ! i) t) of
                      Inl e \<Rightarrow> None | Inr msg \<Rightarrow> Some msg))"
    if "i < length json_data_list" for i
  proof -
    from that outs obtain t where
      "results ! i = fst (process_one m now (1 + int i) (json_data_list ! i) t)" by blast
    then show ?thesis
      using process_one_fields [of m now "1 + int i" "json_data_list ! i" t] by auto
  qed
  with outs show ?thesis by simp
qed


theorem batch_failures_isolated_witness:
  "length (fst (process_batch clinic_mappings ticking three_records 0)) = length three_records \<and>
   map summary (fst (process_batch clinic_mappings ticking three_records 0)) =
     [(1, ''success'', None), (2, ''error'', Some AttributeError), (3, ''success'', None)]"
proof -
  have "process_batch clinic_mappings ticking three_records 0 =
        (fst (process_batch clinic_mappings ticking three_records 0),
         snd (process_batch clinic_mappings ticking three_records 0))" by simp
  from batch_failures_isolated [OF this]
  have "length (fst (process_batch clinic_mappings ticking three_records 0)) = length three_records"
    by (rule conjunct1)
  with three_records_evaluation show ?thesis by (simp only: simp_thms)
qed

section \<open>The order of the compiled fields\<close>

lemma load_rows_foldl:
  "load_rows m rows = Inr m' \<Longrightarrow> m' = foldl file_row m (row_configs rows)"
proof (induction rows arbitrary: m)
  case Nil
  then show ?case by (simp add: row_configs_def)
next
  case (Cons row rows)
  from Cons.prems obtain p where p: "read_row row = Inr p" by (auto split: sum.splits)
  with Cons.prems have "load_rows (file_row m p) rows = Inr m'" by simp
  from Cons.IH [OF this] p show ?case by (simp add: row_configs_def)
qed

lemma dict_at_dict_set: "dict_at (dict_set d k x) k' = (if k' = k then x else dict_at d k')"
  by (simp add: dict_at_def map_of_dict_set)

lemma dict_at_setdefault: "dict_at (setdefault d k []) k' = dict_at d k'"
  by (auto simp add: setdefault_def dict_at_dict_set) (simp add: dict_at_def)

lemma obr_sections_file_row:
  "dict_at (obr_sections (file_row m p)) tag =
     dict_at (obr_sections m) tag @ (if is_grouped p \<and> child_obr (snd p) = tag then [snd p] else [])"
  by (simp add: file_row_def Let_def is_grouped_def dict_at_dict_set dict_at_setdefault)

lemma segments_file_row:
  "dict_at (segments (file_row m p)) segment =
     (if \<not> is_grouped p \<and> fst p = segment
      then dict_set (dict_at (segments m) segment) (json_attribute (snd p)) (snd p)
      else dict_at (segments m) segment)"
  by (simp add: file_row_def Let_def is_grouped_def dict_at_dict_set dict_at_setdefault)

lemma obr_sections_foldl:
  "dict_at (obr_sections (foldl file_row m ps)) tag = dict_at (obr_sections m) tag @ group_fields ps tag"
  by (induction ps arbitrary: m) (simp_all add: group_fields_def obr_sections_file_row)

lemma segments_foldl:
  "dict_at (segments (foldl file_row m ps)) segment =
     foldl (\<lambda>d fc. dict_set d (json_attribute fc) fc) (dict_at (segments m) segment)
       (direct_fields ps segment)"
  by (induction ps arbitrary: m) (simp_all add: direct_fields_def segments_file_row)


lemma dict_set_new: "k \<notin> fst ` set d \<Longrightarrow> dict_set d k v = d @ [(k, v)]"
  by (induction d) auto

lemma map_fst_dict_set:
  "map fst (dict_set d k v) = (if k \<in> fst ` set d then map fst d else map fst d @ [k])"
  by (induction d) force+

lemma distinct_dict_set: "distinct (map fst d) \<Longrightarrow> distinct (map fst (dict_set d k v))"
  by (simp add: map_fst_dict_set)

lemma distinct_foldl_dict_set:
  "distinct (map fst d) \<Longrightarrow> distinct (map fst (foldl (\<lambda>d x. dict_set d (key x) (val x)) d xs))"
  by (induction xs arbitrary: d) (simp_all add: distinct_dict_set)

lemma foldl_dict_set_distinct:
  "distinct (map fst d @ map key xs) \<Longrightarrow>
   foldl (\<lambda>d x. dict_set d (key x) (val x)) d xs = d @ map (\<lambda>x. (key x, val x)) xs"
proof (induction xs arbitrary: d)
  case Nil
  then show ?case by simp
next
  case (Cons x xs)
  from Cons.prems have new: "key x \<notin> fst ` set d" by auto
  then have step: "dict_set d (key x) (val x) = d @ [(key x, val x)]" by (rule dict_set_new)
  from Cons.prems have "distinct (map fst (d @ [(key x, val x)]) @ map key xs)" by auto
  from Cons.IH [OF this] step show ?case by simp
qed

lemma py_dict_distinct: "distinct (map fst kvs) \<Longrightarrow> py_dict kvs = kvs"
  using foldl_dict_set_distinct [of "[]" fst kvs snd] by (simp add: py_dict_def)

lemma filed_distinct:
  "distinct (map json_attribute fcs) \<Longrightarrow> filed fcs = map (\<lambda>fc. (json_attribute fc, fc)) fcs"
  using foldl_dict_set_distinct [of "[]" json_attribute fcs "\<lambda>fc. fc"] by (simp add: filed_def)

lemma distinct_filed: "distinct (map fst (filed fcs))"
  using distinct_foldl_dict_set [of "[]" json_attribute "\<lambda>fc. fc" fcs] by (simp add: filed_def)

lemma distinct_map_insort_key:
  "distinct (map g (insort_key f x xs)) = distinct (map g (x # xs))"
  by (induction xs) (auto simp add: set_insort_key)

lemma distinct_map_sort_key: "distinct (map g (sort_key f xs)) = distinct (map g xs)"
  by (induction xs) (simp_all add: sort_key_simps distinct_map_insort_key)

lemma map_of_map_snd:
  "map_of (map (\<lambda>kv. (fst kv, f (snd kv))) d) k = map_option f (map_of d k)"
  by (induction d) auto

lemma map_of_dict_at: "map_of d k = Some v \<Longrightarrow> dict_at d k = v"
  by (simp add: dict_at_def)


lemma build_dynamic_mappings_sorted:
  assumes "build_dynamic_mappings rows = Inr m"
  obtains m0 where "m0 = foldl file_row \<lparr>segment_order = [], segments = [], obr_sections = [], field_sequence = []\<rparr> (row_configs rows)"
    and "m = sort_mappings m0"
proof -
  from assms obtain m0 where
    l: "load_rows \<lparr>segment_order = [], segments = [], obr_sections = [], field_sequence = []\<rparr> rows = Inr m0"
    and m: "m = sort_mappings m0"
    by (auto simp add: build_dynamic_mappings_def split: sum.splits)
  from load_rows_foldl [OF l] m that show ?thesis by blast
qed

lemma compiled_group:
  assumes "build_dynamic_mappings rows = Inr m" and "map_of (obr_sections m) tag = Some fs"
  shows "fs = sort_key sequence (group_fields (row_configs rows) tag)"
proof -
  from assms(1) obtain m0 where
    m0: "m0 = foldl file_row \<lparr>segment_order = [], segments = [], obr_sections = [], field_sequence = []\<rparr> (row_configs rows)"
    and m: "m = sort_mappings m0" by (rule build_dynamic_mappings_sorted)
  from assms(2) m obtain fs0 where
    fs0: "map_of (obr_sections m0) tag = Some fs0" and fs: "fs = sort_key sequence fs0"
    by (auto simp add: sort_mappings_def map_of_map_snd)
  from map_of_dict_at [OF fs0] have "fs0 = group_fields (row_configs rows) tag"
    unfolding m0 obr_sections_foldl by (simp add: dict_at_def)
  with fs show ?thesis by simp
qed

lemma compiled_segment:
  assumes "build_dynamic_mappings rows = Inr m" and "map_of (segments m) segment = Some d"
  shows "d = sort_key (\<lambda>x. sequence (snd x)) (filed (direct_fields (row_configs rows) segment))"
proof -
  from assms(1) obtain m0 where
    m0: "m0 = foldl file_row \<lparr>segment_order = [], segments = [], obr_sections = [], field_sequence = []\<rparr> (row_configs rows)"
    and m: "m = sort_mappings m0" by (rule build_dynamic_mappings_sorted)
  from assms(2) m obtain d0 where
    d0: "map_of (segments m0) segment = Some d0"
    and d: "d = py_dict (sort_key (\<lambda>x. sequence (snd x)) d0)"
    using map_of_map_snd [of "\<lambda>z. py_dict (sort_key (\<lambda>x. sequence (snd x)) z)" "segments m0" segment]
    by (auto simp add: sort_mappings_def)
  from map_of_dict_at [OF d0] have d0': "d0 = filed (direct_fields (row_configs rows) segment)"
    unfolding m0 segments_foldl by (simp add: dict_at_def filed_def)
  have "distinct (map fst (sort_key (\<lambda>x. sequence (snd x)) d0))"
    unfolding d0' distinct_map_sort_key by (rule distinct_filed)
  from py_dict_distinct [OF this] d d0' show ?thesis by simp
qed

lemma tie_evaluation:
  "build_dynamic_mappings tie_rows = Inr tie_mappings"
  "map_of (obr_sections tie_mappings) ''THERAPY'' =
     Some [row_config ''THERAPY'' ''Cycle Type'' ''CYCLE_TYPE'' 1 ''CT'',
           row_config ''THERAPY'' ''Fill Volume'' ''FILL_VOLUME'' 2 ''FV'',
           row_config ''THERAPY'' ''Dwell Time'' ''DWELL_TIME'' 2 ''DT'']"
  "map_of (segments tie_mappings) ''PID'' =
     Some [(''BAXTER_PATIENT_ID'', row_config [] ''Baxter Patient ID'' ''BAXTER_PATIENT_ID'' 1 ''ID3''),
           (''ERP_PATIENT_ID'', row_config [] ''ERP Patient ID'' ''ERP_PATIENT_ID'' 5 ''ID1''),
           (''CLINIC_PATIENT_ID'', row_config [] ''Clinic Patient ID'' ''CLINIC_PATIENT_ID'' 5 ''ID2'')]"
  "distinct (map json_attribute (direct_fields (row_configs tie_rows) ''PID''))"
  by code_simp+


text \<open>
  Claim C8 as stated fails for a segment's field mapping when an attribute is repeated:
  the mapping is a dictionary keyed by the attribute, so the third row below takes the
  place of the first. With equal sequence numbers throughout, the configuration of row 3
  comes before that of row 2.
\<close>

theorem repeated_attribute_reorders:
  "build_dynamic_mappings repeated_rows =
     Inr \<lparr>segment_order = [''PID''],
          segments = [(''PID'',
             [(''ERP_PATIENT_ID'', row_config [] ''ERP Patient ID'' ''ERP_PATIENT_ID'' 5 ''ID3''),
              (''CLINIC_PATIENT_ID'', row_config [] ''Clinic Patient ID'' ''CLINIC_PATIENT_ID'' 5 ''ID2'')])],
          obr_sections = [],
          field_sequence = [(''PID_ERP_PATIENT_ID'', 5), (''PID_CLINIC_PATIENT_ID'', 5)]\<rparr> \<and>
   direct_fields (row_configs repeated_rows) ''PID'' =
     [row_config [] ''ERP Patient ID'' ''ERP_PATIENT_ID'' 5 ''ID1'',
      row_config [] ''Clinic Patient ID'' ''CLINIC_PATIENT_ID'' 5 ''ID2'',
      row_config [] ''ERP Patient ID'' ''ERP_PATIENT_ID'' 5 ''ID3'']"
  by code_simp

text \<open>
  Claim C8, amended. In every compiled configuration each group's field list is sorted
  ascending by sequence number and rows with equal sequence numbers keep their row
  order. Each segment's field mapping is sorted ascending by sequence number, and
  entries with equal sequence numbers keep the order in which their attributes were
  first filed; this is the row order whenever no attribute is repeated among the rows
  of the segment.
\<close>

theorem compiled_fields_sorted:
  assumes "build_dynamic_mappings rows = Inr m"
  shows "(\<forall>tag fs. map_of (obr_sections m) tag = Some fs \<longrightarrow>
            sorted (map sequence fs) \<and>
            (\<forall>k. filter (\<lambda>c. sequence c = k) fs =
                 filter (\<lambda>c. sequence c = k) (group_fields (row_configs rows) tag))) \<and>
         (\<forall>segment d. map_of (segments m) segment = Some d \<longrightarrow>
            sorted (map (\<lambda>x. sequence (snd x)) d) \<and>
            (\<forall>k. filter (\<lambda>x. sequence (snd x) = k) d =
                 filter (\<lambda>x. sequence (snd x) = k) (filed (direct_fields (row_configs rows) segment))) \<and>
            (distinct (map json_attribute (direct_fields (row_configs rows) segment)) \<longrightarrow>
               (\<forall>k. filter (\<lambda>c. sequence c = k) (map snd d) =
                    filter (\<lambda>c. sequence c = k) (direct_fields (row_configs rows) segment))))"
proof (intro conjI allI impI)
  fix tag fs
  assume "map_of (obr_sections m) tag = Some fs"
  from compiled_group [OF assms this]
  have fs: "fs = sort_key sequence (group_fields (row_configs rows) tag)" .
  show "sorted (map sequence fs)" unfolding fs by (rule sorted_sort_key)
  show "filter (\<lambda>c. sequence c = k) fs =
        filter (\<lambda>c. sequence c = k) (group_fields (row_configs rows) tag)" for k
    unfolding fs by (rule sort_key_stable)
next
  fix segment d
  assume "map_of (segments m) segment = Some d"
  from compiled_segment [OF assms this]
  have d: "d = sort_key (\<lambda>x. sequence (snd x)) (filed (direct_fields (row_configs rows) segment))" .
  show "sorted (map (\<lambda>x. sequence (snd x)) d)" unfolding d by (rule sorted_sort_key)
  show stable: "filter (\<lambda>x. sequence (snd x) = k) d =
        filter (\<lambda>x. sequence (snd x) = k) (filed (direct_fields (row_configs rows) segment))" for k
    unfolding d by (rule sort_key_stable)
  show "filter (\<lambda>c. sequence c = k) (map snd d) =
        filter (\<lambda>c. sequence c = k) (direct_fields (row_configs rows) segment)"
    if "distinct (map json_attribute (direct_fields (row_configs rows) segment))" for k
  proof -
    have "filter (\<lambda>c. sequence c = k) (map snd d) = map snd (filter (\<lambda>x. sequence (snd x) = k) d)"
      by (simp add: filter_map o_def)
    also have "\<dots> = map snd (filter (\<lambda>x. sequence (snd x) = k)
                        (map (\<lambda>fc. (json_attribute fc, fc)) (direct_fields (row_configs rows) segment)))"
      unfolding stable filed_distinct [OF that] ..
    also have "\<dots> = filter (\<lambda>c. sequence c = k) (direct_fields (row_configs rows) segment)"
      by (simp add: filter_map o_def)
    finally show ?thesis .
  qed
qed


theorem compiled_fields_sorted_witness:
  "sorted (map sequence
     [row_config ''THERAPY'' ''Cycle Type'' ''CYCLE_TYPE'' 1 ''CT'',
      row_config ''THERAPY'' ''Fill Volume'' ''FILL_VOLUME'' 2 ''FV'',
      row_config ''THERAPY'' ''Dwell Time'' ''DWELL_TIME'' 2 ''DT'']) \<and>
   filter (\<lambda>c. sequence c = 2)
     [row_config ''THERAPY'' ''Cycle Type'' ''CYCLE_TYPE'' 1 ''CT'',
      row_config ''THERAPY'' ''Fill Volume'' ''FILL_VOLUME'' 2 ''FV'',
      row_config ''THERAPY'' ''Dwell Time'' ''DWELL_TIME'' 2 ''DT''] =
   filter (\<lambda>c. sequence c = 2) (group_fields (row_configs tie_rows) ''THERAPY'') \<and>
   sorted (map (\<lambda>x. sequence (snd x))
     [(''BAXTER_PATIENT_ID'', row_config [] ''Baxter Patient ID'' ''BAXTER_PATIENT_ID'' 1 ''ID3''),
      (''ERP_PATIENT_ID'', row_config [] ''ERP Patient ID'' ''ERP_PATIENT_ID'' 5 ''ID1''),
      (''CLINIC_PATIENT_ID'', row_config [] ''Clinic Patient ID'' ''CLINIC_PATIENT_ID'' 5 ''ID2'')]) \<and>
   filter (\<lambda>c. sequence c = 5) (map snd
     [(''BAXTER_PATIENT_ID'', row_config [] ''Baxter Patient ID'' ''BAXTER_PATIENT_ID'' 1 ''ID3''),
      (''ERP_PATIENT_ID'', row_config [] ''ERP Patient ID'' ''ERP_PATIENT_ID'' 5 ''ID1''),
      (''CLINIC_PATIENT_ID'', row_config [] ''Clinic Patient ID'' ''CLINIC_PATIENT_ID'' 5 ''ID2'')]) =
   filter (\<lambda>c. sequence c = 5) (direct_fields (row_configs tie_rows) ''PID'')"
proof -
  note compiled = compiled_fields_sorted [OF tie_evaluation(1)]
  from compiled tie_evaluation(2) have
    "sorted (map sequence
     [row_config ''THERAPY'' ''Cycle Type'' ''CYCLE_TYPE'' 1 ''CT'',
      row_config ''THERAPY'' ''Fill Volume'' ''FILL_VOLUME'' 2 ''FV'',
      row_config ''THERAPY'' ''Dwell Time'' ''DWELL_TIME'' 2 ''DT''])"
    "filter (\<lambda>c. sequence c = 2)
     [row_config ''THERAPY'' ''Cycle Type'' ''CYCLE_TYPE'' 1 ''CT'',
      row_config ''THERAPY'' ''Fill Volume'' ''FILL_VOLUME'' 2 ''FV'',
      row_config ''THERAPY'' ''Dwell Time'' ''DWELL_TIME'' 2 ''DT''] =
     filter (\<lambda>c. sequence c = 2) (group_fields (row_configs tie_rows) ''THERAPY'')"
    by blast+
  moreover from compiled tie_evaluation(3) tie_evaluation(4) have
    "sorted (map (\<lambda>x. sequence (snd x))
     [(''BAXTER_PATIENT_ID'', row_config [] ''Baxter Patient ID'' ''BAXTER_PATIENT_ID'' 1 ''ID3''),
      (''ERP_PATIENT_ID'', row_config [] ''ERP Patient ID'' ''ERP_PATIENT_ID'' 5 ''ID1''),
      (''CLINIC_PATIENT_ID'', row_config [] ''Clinic Patient ID'' ''CLINIC_PATIENT_ID'' 5 ''ID2'')])"
    "filter (\<lambda>c. sequence c = 5) (map snd
     [(''BAXTER_PATIENT_ID'', row_config [] ''Baxter Patient ID'' ''BAXTER_PATIENT_ID'' 1 ''ID3''),
      (''ERP_PATIENT_ID'', row_config [] ''ERP Patient ID'' ''ERP_PATIENT_ID'' 5 ''ID1''),
      (''CLINIC_PATIENT_ID'', row_config [] ''Clinic Patient ID'' ''CLINIC_PATIENT_ID'' 5 ''ID2'')]) =
     filter (\<lambda>c. sequence c = 5) (direct_fields (row_configs tie_rows) ''PID'')"
    by blast+
  ultimately show ?thesis by blast
qed

section \<open>Identifiers that are present but empty\<close>

lemma map_of_dict_del: "map_of (dict_del d k) k' = (if k' = k then None else map_of d k')"
  by (induction d) (auto simp add: dict_del_def)

lemma split_prefix:
  "sep \<notin> set p \<Longrightarrow> split sep (p @ sep # rest) = p # split sep rest"
  by (induction p) (auto split: list.splits)

lemma split_not_Nil: "split sep s \<noteq> []"
  by (induction s) (auto split: list.splits)

lemma walk_falsy:
  "\<not> truthy v \<Longrightarrow> \<exists>w. walk v ks = Inr w \<and> \<not> truthy w"
  by (cases ks; cases v) auto

lemma patient_info_lookup:
  assumes "map_of d ''PATIENT_INFO'' = Some (JDict info)"
    and "map_of info a = Some v" and "\<not> truthy v"
  shows "same_presence (get_field_value (JDict d) (''PATIENT_INFO.'' @ attr))
           (get_field_value (without_attribute d info a) (''PATIENT_INFO.'' @ attr))"
proof -
  have s: "split (CHR ''.'') (''PATIENT_INFO.'' @ attr) = ''PATIENT_INFO'' # split (CHR ''.'') attr"
    using split_prefix [of "CHR ''.''" "''PATIENT_INFO''" attr] by simp
  obtain k ks where ks: "split (CHR ''.'') attr = k # ks"
    using split_not_Nil [of "CHR ''.''" attr] by (cases "split (CHR ''.'') attr") auto
  show ?thesis
  proof (cases "k = a")
    case True
    from walk_falsy [OF assms(3), of ks] obtain w where w: "walk v ks = Inr w" "\<not> truthy w"
      by blast
    with assms True s ks show ?thesis
      by (simp add: same_presence_def get_field_value_def without_attribute_def
          map_of_dict_set map_of_dict_del)
  next
    case False
    with assms s ks show ?thesis
      by (simp add: same_presence_def get_field_value_def without_attribute_def
          map_of_dict_set map_of_dict_del)
  qed
qed

lemma id_token_falsy: "\<not> truthy v \<Longrightarrow> id_token fc v = []"
  by (simp add: id_token_def)

lemma pid_id_fields_same:
  assumes "\<And>attr. same_presence (get_field_value data (''PATIENT_INFO.'' @ attr))
                     (get_field_value data' (''PATIENT_INFO.'' @ attr))"
  shows "pid_id_fields data acc fcs = pid_id_fields data' acc fcs"
proof (induction fcs arbitrary: acc)
  case Nil
  then show ?case by simp
next
  case (Cons fc fcs)
  let ?r = "get_field_value data (''PATIENT_INFO.'' @ json_attribute fc)"
  let ?r' = "get_field_value data' (''PATIENT_INFO.'' @ json_attribute fc)"
  from assms [of "json_attribute fc"]
  consider "?r = ?r'" | w w' where "?r = Inr w" "?r' = Inr w'" "\<not> truthy w" "\<not> truthy w'"
    unfolding same_presence_def by blast
  then show ?case
  proof cases
    case 1
    then show ?thesis
      by (cases ?r') (simp_all add: Cons.IH del: append.simps)
  next
    case 2
    then show ?thesis
      by (simp add: id_token_falsy Cons.IH del: append.simps)
  qed
qed


lemma same_presence_cases:
  assumes "same_presence r r'"
  obtains e where "r = Inl e" "r' = Inl e"
  | w w' where "r = Inr w" "r' = Inr w'" "truthy w = truthy w'" "\<And>dflt. str_or w dflt = str_or w' dflt"
proof (cases r)
  case (Inl e)
  with assms have "r' = Inl e" by (auto simp add: same_presence_def)
  with Inl that(1) show ?thesis by blast
next
  case (Inr w)
  with assms obtain w' where w': "r' = Inr w'" and "w = w' \<or> (\<not> truthy w \<and> \<not> truthy w')"
    by (auto simp add: same_presence_def)
  then have "truthy w = truthy w'" "\<And>dflt. str_or w dflt = str_or w' dflt"
    by (auto simp add: str_or_def)
  with Inr w' that(2) show ?thesis by blast
qed

lemma build_pid_same:
  assumes "\<And>attr. same_presence (get_field_value data (''PATIENT_INFO.'' @ attr))
                     (get_field_value data' (''PATIENT_INFO.'' @ attr))"
  shows "build_pid m data set_id = build_pid m data' set_id"
proof (cases "map_of (segments m) ''PID''")
  case None
  then show ?thesis by (simp add: build_pid_def)
next
  case (Some pid)
  have ids: "pid_id_fields data [] (map snd pid) = pid_id_fields data' [] (map snd pid)"
    using assms by (rule pid_id_fields_same)
  show ?thesis
  proof (cases "pid_id_fields data' [] (map snd pid)")
    case (Inl e)
    with Some ids show ?thesis by (simp add: build_pid_def)
  next
    case (Inr id_fields)
    from assms [of "''FIRST_NAME''"] show ?thesis
    proof (cases rule: same_presence_cases)
      case (1 e)
      with Some ids Inr show ?thesis by (simp add: build_pid_def)
    next
      case first: (2 f f')
      from assms [of "''LAST_NAME''"] show ?thesis
      proof (cases rule: same_presence_cases)
        case (1 e)
        with first Some ids Inr show ?thesis by (simp add: build_pid_def)
      next
        case last: (2 l l')
        from assms [of "''MIDDLE_NAME''"] show ?thesis
        proof (cases rule: same_presence_cases)
          case (1 e)
          with first last Some ids Inr show ?thesis by (simp add: build_pid_def)
        next
          case middle: (2 mi mi')
          with first last Some ids Inr show ?thesis by (simp add: build_pid_def)
        qed
      qed
    qed
  qed
qed

lemma empty_id_evaluation:
  "build_segment clinic_mappings ticking ''PID'' (JDict empty_id_record) 1 0 = (Inr [''PID|1|||||^John^''], 0) \<and>
   without_attribute empty_id_record [(''CLINIC_PATIENT_ID'', JStr []), (''FIRST_NAME'', JStr ''John'')] ''CLINIC_PATIENT_ID'' =
     JDict [(''PATIENT_INFO'', JDict [(''FIRST_NAME'', JStr ''John'')])]"
  by code_simp

text \<open>
  Claim C10. In the PID segment the presence of an identifier is tested by truthiness.
  When the patient information of a record holds an attribute with a falsy value (the
  empty text, 0, \<^verbatim>\<open>None\<close>), that value yields no identifier token for any field, and the
  PID segment is the one built from the same record with the attribute removed.
\<close>

theorem falsy_identifier_as_missing:
  assumes "map_of d ''PATIENT_INFO'' = Some (JDict info)"
    and "map_of info a = Some v"
    and "\<not> truthy v"
  shows "id_token fc v = [] \<and>
         build_segment m now ''PID'' (JDict d) set_id n =
         build_segment m now ''PID'' (without_attribute d info a) set_id n"
proof -
  have "build_pid m (JDict d) set_id = build_pid m (without_attribute d info a) set_id"
    by (rule build_pid_same) (rule patient_info_lookup [OF assms])
  with assms(3) show ?thesis by (simp add: build_segment_def id_token_falsy)
qed

theorem falsy_identifier_as_missing_witness:
  "id_token (clinic_config ''Clinic Patient ID'' ''ST'') (JStr []) = [] \<and>
   build_segment clinic_mappings ticking ''PID'' (JDict empty_id_record) 1 0 =
   build_segment clinic_mappings ticking ''PID''
     (without_attribute empty_id_record
        [(''CLINIC_PATIENT_ID'', JStr []), (''FIRST_NAME'', JStr ''John'')] ''CLINIC_PATIENT_ID'') 1 0 \<and>
   build_segment clinic_mappings ticking ''PID'' (JDict empty_id_record) 1 0 = (Inr [''PID|1|||||^John^''], 0) \<and>
   without_attribute empty_id_record [(''CLINIC_PATIENT_ID'', JStr []), (''FIRST_NAME'', JStr ''John'')] ''CLINIC_PATIENT_ID'' =
     JDict [(''PATIENT_INFO'', JDict [(''FIRST_NAME'', JStr ''John'')])]"
proof -
  have "id_token (clinic_config ''Clinic Patient ID'' ''ST'') (JStr []) = [] \<and>
   build_segment clinic_mappings ticking ''PID'' (JDict empty_id_record) 1 0 =
   build_segment clinic_mappings ticking ''PID''
     (without_attribute empty_id_record
        [(''CLINIC_PATIENT_ID'', JStr []), (''FIRST_NAME'', JStr ''John'')] ''CLINIC_PATIENT_ID'') 1 0"
    by (rule falsy_identifier_as_missing) (simp_all add: empty_id_record_def)
  with empty_id_evaluation show ?thesis by blast
qed

end
